theory Spec2Isabelle
  imports Complex_Main
begin

section \<open>Numbers, vectors and colours\<close>

text \<open>
  The component of \<^verbatim>\<open>src/vehicle/Vehicle.tsx\<close> works on JavaScript numbers. They are
  modelled as \<^typ>\<open>real\<close> (no rounding, no NaN); the axis indices, which the source only
  hands on, as \<^typ>\<open>int\<close>. A \<^verbatim>\<open>Vector3\<close> and a \<^verbatim>\<open>Color\<close> of three.js are triples
  of numbers.
\<close>

datatype Vector3 = Vector3 real real real

datatype Color = Color real real real

fun multiplyScalar :: "Color \<Rightarrow> real \<Rightarrow> Color" where
  "multiplyScalar (Color r g b) s = Color (r * s) (g * s) (b * s)"

text \<open>
  \<^verbatim>\<open>new Color(0x333333)\<close>: one byte per channel, each divided by 255 (the conversion
  between colour spaces that three.js may apply afterwards is left out).
\<close>

definition Color_hex :: "nat \<Rightarrow> Color" where
  "Color_hex h =
     Color (real (h div 65536 mod 256) / 255) (real (h div 256 mod 256) / 255)
       (real (h mod 256) / 255)"

definition BRAKE_LIGHTS_ON_COLOR :: Color where
  "BRAKE_LIGHTS_ON_COLOR = multiplyScalar (Color 1 0.05 0.05) 1.5"

definition BRAKE_LIGHTS_OFF_COLOR :: Color where
  "BRAKE_LIGHTS_OFF_COLOR = Color_hex 3355443" \<comment> \<open>\<^verbatim>\<open>0x333333\<close>\<close>

definition REVERSE_ON_COLOR :: Color where
  "REVERSE_ON_COLOR = multiplyScalar (Color 0.2 0.2 0.2) 1.5"

definition DRIVING_ON_COLOR :: Color where
  "DRIVING_ON_COLOR = multiplyScalar (Color 0.05 0.4 0.2) 1.5"

section \<open>Wheel options and the control panel\<close>

text \<open>
  \<^verbatim>\<open>useLeva(`${LEVA_KEY}-wheel-options`, {...})\<close> returns the current values of the
  panel's controls; the object literal gives their initial values. The source destructures
  the result into the three axis indices, the two direction arrays, the four chassis
  measures and the rest, \<^verbatim>\<open>levaWheelOptions\<close>. The records below follow the spreads
  \<^verbatim>\<open>{...levaWheelOptions, directionLocal, axleLocal}\<close> and
  \<^verbatim>\<open>{...commonWheelOptions, chassisConnectionPointLocal}\<close>.
\<close>

record levaWheelOptions =
  radius :: real
  suspensionStiffness :: real
  suspensionRestLength :: real
  maxSuspensionForce :: real
  maxSuspensionTravel :: real
  sideFrictionStiffness :: real
  frictionSlip :: real
  dampingRelaxation :: real
  dampingCompression :: real
  rollInfluence :: real
  customSlidingRotationalSpeed :: real
  useCustomSlidingRotationalSpeed :: bool
  forwardAcceleration :: real
  sideAcceleration :: real

record commonWheelOptions = levaWheelOptions +
  directionLocal :: Vector3
  axleLocal :: Vector3

record WheelOptions = commonWheelOptions +
  chassisConnectionPointLocal :: Vector3

type_synonym Vector3Tuple = "real \<times> real \<times> real"

record wheelControls =
  indexRightAxis :: int
  indexForwardAxis :: int
  indexUpAxis :: int
  directionLocalArray :: Vector3Tuple
  axleLocalArray :: Vector3Tuple
  vehicleWidth :: real
  vehicleHeight :: real
  vehicleFront :: real
  vehicleBack :: real
  levaWheelOptions :: levaWheelOptions

text \<open>The initial values of the controls, lines 85 to 115 of the source.\<close>

definition defaultWheelControls :: wheelControls where
  "defaultWheelControls =
     \<lparr> indexRightAxis = 2, indexForwardAxis = 0, indexUpAxis = 1,
       directionLocalArray = (0, -1, 0), axleLocalArray = (0, 0, 1),
       vehicleWidth = 2.8, vehicleHeight = -0.1, vehicleFront = -1.35, vehicleBack = 1.3,
       levaWheelOptions =
         \<lparr> radius = 0.5,
           suspensionStiffness = 30, suspensionRestLength = 0.3,
           maxSuspensionForce = 100000, maxSuspensionTravel = 0.3,
           sideFrictionStiffness = 1, frictionSlip = 1.4,
           dampingRelaxation = 2.3, dampingCompression = 4.4,
           rollInfluence = 0.01,
           customSlidingRotationalSpeed = -30, useCustomSlidingRotationalSpeed = True,
           forwardAcceleration = 1, sideAcceleration = 1 \<rparr> \<rparr>"

text \<open>\<^verbatim>\<open>new Vector3(...array)\<close> for an array of three numbers.\<close>

fun Vector3_of :: "Vector3Tuple \<Rightarrow> Vector3" where
  "Vector3_of (a, b, c) = Vector3 a b c"

definition commonWheelOptions :: "wheelControls \<Rightarrow> commonWheelOptions" where
  "commonWheelOptions c =
     levaWheelOptions.extend (levaWheelOptions c)
       (commonWheelOptions.fields (Vector3_of (directionLocalArray c))
          (Vector3_of (axleLocalArray c)))"

section \<open>The wheels of the component\<close>

text \<open>
  A wheel of the component pairs its options with the ref of its scene object; the four
  refs are told apart by the names the source gives them.
\<close>

datatype WheelObject =
  topLeftWheelObject | topRightWheelObject | bottomLeftWheelObject | bottomRightWheelObject

record RaycastVehicleWheel =
  options :: WheelOptions
  object :: WheelObject

definition wheelOptionsAt :: "wheelControls \<Rightarrow> Vector3 \<Rightarrow> WheelOptions" where
  "wheelOptionsAt c p = commonWheelOptions.extend (commonWheelOptions c) (WheelOptions.fields p)"

definition wheels :: "wheelControls \<Rightarrow> RaycastVehicleWheel list" where
  "wheels c =
     [ \<lparr> options =
           wheelOptionsAt c (Vector3 (vehicleBack c) (vehicleHeight c) (vehicleWidth c * 0.5)),
         object = topLeftWheelObject \<rparr>,
       \<lparr> options =
           wheelOptionsAt c (Vector3 (vehicleBack c) (vehicleHeight c) (vehicleWidth c * -0.5)),
         object = topRightWheelObject \<rparr>,
       \<lparr> options =
           wheelOptionsAt c (Vector3 (vehicleFront c) (vehicleHeight c) (vehicleWidth c * 0.5)),
         object = bottomLeftWheelObject \<rparr>,
       \<lparr> options =
           wheelOptionsAt c (Vector3 (vehicleFront c) (vehicleHeight c) (vehicleWidth c * -0.5)),
         object = bottomRightWheelObject \<rparr> ]"

section \<open>The state of a mounted component\<close>

text \<open>
  The refs of the component start as \<^verbatim>\<open>null\<close> and are bound when the scene is mounted.
  A mesh holds a reference to its material object, so materials live in a store, indexed by
  address; \<^verbatim>\<open>setBraking\<close> writes into that store. The type \<^typ>\<open>'v\<close> is the class
  \<^verbatim>\<open>RapierRaycastVehicle\<close>, whose file \<^verbatim>\<open>rapierRaycastVehicle.ts\<close> is not among the
  sources.
\<close>

datatype error = TypeError | InvalidConfiguration | InvalidTimestep | MissingChassis

type_synonym addr = nat

type_synonym World = nat

type_synonym RapierRigidBody = nat

datatype MaterialKind = MeshBasicMaterial | MeshStandardMaterial

record Material =
  kind :: MaterialKind
  color :: Color
  emissive :: "(Color \<times> real) option"

record Mesh =
  geometry :: string
  material :: addr

record 'v Vehicle =
  vehicleRef :: "'v option"
  chassisRigidBodyRef :: "RapierRigidBody option"
  brakeLightsRef :: "Mesh option"
  frontLightsRef :: "Mesh option"
  materials :: "addr \<Rightarrow> Material"
  rapier_world :: World
  controls :: wheelControls

text \<open>
  \<^verbatim>\<open>setBraking\<close>, lines 183 to 193: reading \<^verbatim>\<open>.material\<close> of a ref that is still
  \<^verbatim>\<open>null\<close> raises a TypeError; otherwise the colour of the brake-light mesh's material
  is replaced.
\<close>

definition setBraking :: "bool \<Rightarrow> bool \<Rightarrow> bool \<Rightarrow> 'v Vehicle \<Rightarrow> error + 'v Vehicle" where
  "setBraking braking reversing driving s =
     (case brakeLightsRef s of
        None \<Rightarrow> Inl TypeError
      | Some mesh \<Rightarrow>
          Inr (s\<lparr> materials := (materials s)
                 (material mesh := (materials s (material mesh))
                    \<lparr> color :=
                        (if braking then BRAKE_LIGHTS_ON_COLOR
                         else if reversing then REVERSE_ON_COLOR
                         else if driving then DRIVING_ON_COLOR
                         else BRAKE_LIGHTS_OFF_COLOR) \<rparr>) \<rparr>))"

text \<open>
  The scene of lines 316 to 344: the front-light mesh and the brake-light mesh each have a
  material element of their own as a child, so each holds a material object that no other
  mesh holds. The state below is a component right after mounting, with these two
  materials at the addresses 0 and 1.
\<close>

definition frontLightsMesh :: Mesh where
  "frontLightsMesh = \<lparr> geometry = ''Mesh_body_2'', material = 0 \<rparr>"

definition brakeLightsMesh :: Mesh where
  "brakeLightsMesh = \<lparr> geometry = ''Mesh_body_4'', material = 1 \<rparr>"

definition mountedMaterials :: "addr \<Rightarrow> Material" where
  "mountedMaterials =
     (\<lambda>a. \<lparr> kind = MeshStandardMaterial, color = Color 1 1 1, emissive = None \<rparr>)
       (0 := \<lparr> kind = MeshStandardMaterial, color = Color 1 1 1,
               emissive = Some (Color 1 1 1, 2) \<rparr>,
        1 := \<lparr> kind = MeshBasicMaterial, color = Color 1 1 1, emissive = None \<rparr>)"

definition mounted :: "World \<Rightarrow> RapierRigidBody \<Rightarrow> wheelControls \<Rightarrow> 'v Vehicle" where
  "mounted w body c =
     \<lparr> vehicleRef = None, chassisRigidBodyRef = Some body,
       brakeLightsRef = Some brakeLightsMesh, frontLightsRef = Some frontLightsMesh,
       materials = mountedMaterials, rapier_world = w, controls = c \<rparr>"

section \<open>Creating the raycast vehicle\<close>

text \<open>
  The effect of lines 197 to 211 creates the vehicle from an options object and adds the
  wheels of the component to it in a loop over their indices. The class is taken as two
  parameters: \<open>mk\<close> for its constructor and \<open>aw\<close> for its method \<^verbatim>\<open>addWheel\<close>, which
  may raise. The loop ignores what \<^verbatim>\<open>addWheel\<close> returns. When a call raises, the effect
  stops and the ref holds the vehicle with the wheels added so far. The last statement of
  the effect assigns the ref to itself and changes nothing.
\<close>

record RapierRaycastVehicleOptions =
  world :: World
  chassisRigidBody :: "RapierRigidBody option"
  indexRightAxis :: int
  indexForwardAxis :: int
  indexUpAxis :: int

definition vehicleOptions :: "'v Vehicle \<Rightarrow> RapierRaycastVehicleOptions" where
  "vehicleOptions s =
     \<lparr> world = rapier_world s,
       chassisRigidBody = chassisRigidBodyRef s,
       indexRightAxis = wheelControls.indexRightAxis (controls s),
       indexForwardAxis = wheelControls.indexForwardAxis (controls s),
       indexUpAxis = wheelControls.indexUpAxis (controls s) \<rparr>"

function addWheels ::
  "(WheelOptions \<Rightarrow> 'v \<Rightarrow> error + 'v) \<Rightarrow> RaycastVehicleWheel list \<Rightarrow> nat \<Rightarrow> 'v \<Rightarrow> 'v \<times> error option"
where
  "addWheels aw ws i v =
     (if i < length ws then
        (case aw (options (ws ! i)) v of
           Inl e \<Rightarrow> (v, Some e)
         | Inr v' \<Rightarrow> addWheels aw ws (Suc i) v')
      else (v, None))"
  by pat_completeness auto
termination
  by (relation "measure (\<lambda>(aw, ws, i, v). length ws - i)") auto

declare addWheels.simps [simp del]

definition useEffect ::
  "(RapierRaycastVehicleOptions \<Rightarrow> 'v) \<Rightarrow> (WheelOptions \<Rightarrow> 'v \<Rightarrow> error + 'v) \<Rightarrow> 'v Vehicle
     \<Rightarrow> 'v Vehicle \<times> error option"
where
  "useEffect mk aw s =
     (case addWheels aw (wheels (controls s)) 0 (mk (vehicleOptions s)) of
        (v, err) \<Rightarrow> (s\<lparr> vehicleRef := Some v \<rparr>, err))"

text \<open>
  The same loop by recursion over the list of options, used to reason about the loop over
  the indices.
\<close>

fun addAll :: "(WheelOptions \<Rightarrow> 'v \<Rightarrow> error + 'v) \<Rightarrow> WheelOptions list \<Rightarrow> 'v \<Rightarrow> 'v \<times> error option" where
  "addAll aw [] v = (v, None)"
| "addAll aw (opts # rest) v =
     (case aw opts v of
        Inl e \<Rightarrow> (v, Some e)
      | Inr v' \<Rightarrow> addAll aw rest v')"

section \<open>The states a mounted component goes through\<close>

text \<open>
  A component is mounted with some values of the controls; from then on it is rendered
  again with the panel's current values, its effect runs, and \<^verbatim>\<open>setBraking\<close> is called
  through the handle of lines 180 to 195. Unmounting is not part of the model.
\<close>

inductive reachable ::
  "(RapierRaycastVehicleOptions \<Rightarrow> 'v) \<Rightarrow> (WheelOptions \<Rightarrow> 'v \<Rightarrow> error + 'v) \<Rightarrow> 'v Vehicle \<Rightarrow> bool"
  for mk aw
where
  mount: "reachable mk aw (mounted w body c)"
| render: "reachable mk aw s \<Longrightarrow> reachable mk aw (s\<lparr> controls := c \<rparr>)"
| effect: "reachable mk aw s \<Longrightarrow> useEffect mk aw s = (s', err) \<Longrightarrow> reachable mk aw s'"
| braking: "reachable mk aw s \<Longrightarrow> setBraking b r d s = Inr s' \<Longrightarrow> reachable mk aw s'"

text \<open>The colour a viewer sees on the brake lights: read through the ref and the store.\<close>

definition brakeLightsColor :: "'v Vehicle \<Rightarrow> Color option" where
  "brakeLightsColor s =
     map_option (\<lambda>mesh. color (materials s (material mesh))) (brakeLightsRef s)"

text \<open>Both light meshes are bound and hold different material objects.\<close>

definition separateLights :: "'v Vehicle \<Rightarrow> bool" where
  "separateLights s =
     (case (brakeLightsRef s, frontLightsRef s) of
        (Some b, Some f) \<Rightarrow> material b \<noteq> material f
      | _ \<Rightarrow> False)"

text \<open>
  The invariant the data model asks of the axis indices: each is one of 0, 1, 2 and no two
  are equal.
\<close>

definition axisIndicesValid :: "RapierRaycastVehicleOptions \<Rightarrow> bool" where
  "axisIndicesValid opts =
     (let r = RapierRaycastVehicleOptions.indexRightAxis opts;
          f = RapierRaycastVehicleOptions.indexForwardAxis opts;
          u = RapierRaycastVehicleOptions.indexUpAxis opts
      in r \<in> {0, 1, 2} \<and> f \<in> {0, 1, 2} \<and> u \<in> {0, 1, 2} \<and> r \<noteq> f \<and> r \<noteq> u \<and> f \<noteq> u)"


section \<open>The raycast vehicle, after its specification\<close>

text \<open>
  The class \<^verbatim>\<open>RapierRaycastVehicle\<close> is imported from \<^verbatim>\<open>./rapierRaycastVehicle\<close>, a file
  that is not among the sources. What follows is written from sections 3, 4.1 and 4.2 of the
  specification. Where the specification names no value (the state of a new wheel, the drag
  of a free-spinning wheel, the friction forces), the model takes a parameter or says so.
\<close>

text \<open>Modelled from the spec: the dynamic state of a wheel (section 3), beside its static
  configuration; the class \<^verbatim>\<open>Wheel\<close> is missing from the sources.\<close>

record Wheel =
  config :: WheelOptions
  suspensionLength :: real
  lastSuspensionLength :: real
  inContact :: bool
  contactPoint :: Vector3
  contactNormal :: Vector3
  contactDistance :: real
  suspensionForce :: real
  rotation :: real
  angularVelocity :: real

text \<open>Modelled from the spec: the vehicle (section 3) holds the options it was constructed
  with and an ordered sequence of wheels; the class \<^verbatim>\<open>RapierRaycastVehicle\<close> is missing
  from the sources.\<close>

record RapierRaycastVehicle = RapierRaycastVehicleOptions +
  wheelList :: "Wheel list"

text \<open>Modelled from the spec: the constructor of the missing class; a vehicle is
  constructed with an empty wheel list.\<close>

definition new_RapierRaycastVehicle :: "RapierRaycastVehicleOptions \<Rightarrow> RapierRaycastVehicle" where
  "new_RapierRaycastVehicle opts =
     RapierRaycastVehicleOptions.extend opts (RapierRaycastVehicle.fields [])"

fun dot :: "Vector3 \<Rightarrow> Vector3 \<Rightarrow> real" where
  "dot (Vector3 a b c) (Vector3 a' b' c') = a * a' + b * b' + c * c'"

fun scale :: "real \<Rightarrow> Vector3 \<Rightarrow> Vector3" where
  "scale s (Vector3 a b c) = Vector3 (s * a) (s * b) (s * c)"

fun add :: "Vector3 \<Rightarrow> Vector3 \<Rightarrow> Vector3" where
  "add (Vector3 a b c) (Vector3 a' b' c') = Vector3 (a + a') (b + b') (c + c')"

text \<open>Modelled from the spec: the check of the missing method \<^verbatim>\<open>addWheel\<close> (sections 4.1
  and 7): both directions are unit vectors (a vector has length 1 exactly when its square
  is 1), they are perpendicular, and neither the radius nor the stiffness is negative.\<close>

definition validWheelOptions :: "WheelOptions \<Rightarrow> bool" where
  "validWheelOptions opts =
     (dot (directionLocal opts) (directionLocal opts) = 1 \<and>
      dot (axleLocal opts) (axleLocal opts) = 1 \<and>
      dot (directionLocal opts) (axleLocal opts) = 0 \<and>
      0 \<le> radius opts \<and> 0 \<le> suspensionStiffness opts)"

text \<open>Modelled from the spec: the wheel that the missing method \<^verbatim>\<open>addWheel\<close> registers.
  Its configuration is the one given. The specification does not say how the dynamic state
  starts; here the suspension starts at its rest length, out of contact and at rest.\<close>

definition newWheel :: "WheelOptions \<Rightarrow> Wheel" where
  "newWheel opts =
     \<lparr> config = opts,
       suspensionLength = suspensionRestLength opts,
       lastSuspensionLength = suspensionRestLength opts,
       inContact = False,
       contactPoint = Vector3 0 0 0, contactNormal = Vector3 0 0 0, contactDistance = 0,
       suspensionForce = 0, rotation = 0, angularVelocity = 0 \<rparr>"

text \<open>Modelled from the spec: the missing method \<^verbatim>\<open>addWheel\<close> (section 4.1). It fails
  with \<open>InvalidConfiguration\<close> on a configuration that does not pass the check, and
  otherwise appends the wheel and returns its index as the handle.\<close>

definition addWheel ::
  "WheelOptions \<Rightarrow> RapierRaycastVehicle \<Rightarrow> error + nat \<times> RapierRaycastVehicle"
where
  "addWheel opts v =
     (if validWheelOptions opts
      then Inr (length (wheelList v), v\<lparr> wheelList := wheelList v @ [newWheel opts] \<rparr>)
      else Inl InvalidConfiguration)"

text \<open>The method as the loop of the component calls it: the handle is dropped.\<close>

definition addWheel_call :: "WheelOptions \<Rightarrow> RapierRaycastVehicle \<Rightarrow> error + RapierRaycastVehicle" where
  "addWheel_call opts v = map_sum id snd (addWheel opts v)"

text \<open>Modelled from the spec: clamping as the missing suspension solver uses it (section
  4.2, steps 4, 5 and 7).\<close>

definition clamp :: "real \<Rightarrow> real \<Rightarrow> real \<Rightarrow> real" where
  "clamp v lo hi = max lo (min hi v)"

text \<open>Modelled from the spec: what the ray-cast query of section 6 returns for a hit; the
  query itself belongs to the physics engine.\<close>

record RayHit =
  hitDistance :: real
  hitPoint :: Vector3
  hitNormal :: Vector3

text \<open>Modelled from the spec: the spring force of the missing suspension solver (section
  4.2, step 5): stiffness times (rest length minus suspension length), at least 0 and at
  most the maximal suspension force.\<close>

definition springForce :: "WheelOptions \<Rightarrow> real \<Rightarrow> real" where
  "springForce opts len =
     clamp (suspensionStiffness opts * (suspensionRestLength opts - len)) 0
       (maxSuspensionForce opts)"

text \<open>Modelled from the spec: the damper force of the missing suspension solver (section
  4.2, step 6): the velocity is (last length minus length) over the time step, with the
  compression coefficient when it is positive and the relaxation coefficient otherwise; the
  force resists the motion, so it pushes while the suspension is compressing.\<close>

definition damperForce :: "WheelOptions \<Rightarrow> real \<Rightarrow> real \<Rightarrow> real \<Rightarrow> real" where
  "damperForce opts lastLen len deltaTime =
     (let velocity = (lastLen - len) / deltaTime
      in (if velocity > 0 then dampingCompression opts else dampingRelaxation opts) * velocity)"

text \<open>Modelled from the spec: the total suspension force of the missing suspension solver
  (section 4.2, step 7): spring plus damper, clamped to lie between 0 and the maximal
  suspension force.\<close>

definition totalSuspensionForce :: "WheelOptions \<Rightarrow> real \<Rightarrow> real \<Rightarrow> real \<Rightarrow> real" where
  "totalSuspensionForce opts lastLen len deltaTime =
     clamp (springForce opts len + damperForce opts lastLen len deltaTime) 0
       (maxSuspensionForce opts)"

text \<open>Modelled from the spec: one wheel's step of the missing suspension solver (section
  4.2, steps 3 to 8), given the result of its raycast. The drag of a free-spinning wheel
  is the parameter \<open>freeSpinDecay\<close>, the factor its angular velocity is multiplied with.\<close>

definition updateSuspension :: "real \<Rightarrow> real \<Rightarrow> RayHit option \<Rightarrow> Wheel \<Rightarrow> Wheel" where
  "updateSuspension freeSpinDecay deltaTime hit w =
     (let opts = config w;
          fullLength = suspensionRestLength opts + maxSuspensionTravel opts
      in case hit of
           None \<Rightarrow>
             w\<lparr> inContact := False,
                suspensionLength := fullLength,
                lastSuspensionLength := fullLength,
                suspensionForce := 0,
                angularVelocity := freeSpinDecay * angularVelocity w,
                rotation := rotation w + freeSpinDecay * angularVelocity w * deltaTime \<rparr>
         | Some h \<Rightarrow>
             (let distance = hitDistance h - radius opts;
                  len = clamp distance 0 fullLength
              in w\<lparr> inContact := True,
                    contactPoint := hitPoint h,
                    contactNormal := hitNormal h,
                    contactDistance := distance,
                    suspensionLength := len,
                    lastSuspensionLength := len,
                    suspensionForce :=
                      totalSuspensionForce opts (lastSuspensionLength w) len deltaTime \<rparr>))"

text \<open>Modelled from the spec: the force one wheel adds to the chassis in a tick of the
  missing controller (sections 3 and 4.3): the suspension force along the contact normal
  plus the friction forces, for a wheel in contact only. The friction solver is the
  parameter \<open>friction\<close>.\<close>

definition wheelForce :: "(Wheel \<Rightarrow> Vector3) \<Rightarrow> Wheel \<Rightarrow> Vector3" where
  "wheelForce friction w =
     (if inContact w then add (scale (suspensionForce w) (contactNormal w)) (friction w)
      else Vector3 0 0 0)"

text \<open>Modelled from the spec: the force applied to the chassis in a tick of the missing
  controller (section 3): the sum over the wheels, in index order.\<close>

definition chassisForce :: "(Wheel \<Rightarrow> Vector3) \<Rightarrow> Wheel list \<Rightarrow> Vector3" where
  "chassisForce friction ws = foldr (\<lambda>w acc. add (wheelForce friction w) acc) ws (Vector3 0 0 0)"

text \<open>
  A wheel of the component's initial configuration, as \<^verbatim>\<open>addWheel\<close> registers it: rest
  length 0.3, stiffness 30, radius 0.5, suspension at rest.
\<close>

definition restingWheel :: Wheel where
  "restingWheel = newWheel (options (wheels defaultWheelControls ! 0))"

text \<open>
  The vehicle the effect constructs right after mounting with the initial controls, before
  any wheel is added.
\<close>

definition initialVehicle :: RapierRaycastVehicle where
  "initialVehicle =
     new_RapierRaycastVehicle
       (vehicleOptions (mounted 0 0 defaultWheelControls :: RapierRaycastVehicle Vehicle))"

section \<open>Colours\<close>

lemma colour_values:
  "BRAKE_LIGHTS_ON_COLOR = Color 1.5 0.075 0.075"
  "BRAKE_LIGHTS_OFF_COLOR = Color 0.2 0.2 0.2"
  "REVERSE_ON_COLOR = Color 0.3 0.3 0.3"
  "DRIVING_ON_COLOR = Color 0.075 0.6 0.3"
  by (simp_all add: BRAKE_LIGHTS_ON_COLOR_def BRAKE_LIGHTS_OFF_COLOR_def REVERSE_ON_COLOR_def
      DRIVING_ON_COLOR_def Color_hex_def)

lemma colours_distinct:
  "distinct [BRAKE_LIGHTS_ON_COLOR, REVERSE_ON_COLOR, DRIVING_ON_COLOR, BRAKE_LIGHTS_OFF_COLOR]"
  by (simp add: colour_values)

section \<open>The loop of the effect\<close>

lemma useEffect_state:
  assumes "useEffect mk aw s = (s', err)"
  shows "\<exists>v. s' = s\<lparr> vehicleRef := Some v \<rparr>"
  using assms by (auto simp: useEffect_def split: prod.splits)

lemma addWheels_addAll: "addWheels aw ws i v = addAll aw (map options (drop i ws)) v"
proof (induction aw ws i v rule: addWheels.induct)
  case (1 aw ws i v)
  show ?case
  proof (cases "i < length ws")
    case True
    then have d: "drop i ws = ws ! i # drop (Suc i) ws"
      by (simp add: Cons_nth_drop_Suc)
    show ?thesis
    proof (cases "aw (options (ws ! i)) v")
      case (Inl e)
      with True d show ?thesis by (simp add: addWheels.simps [of aw ws i v])
    next
      case (Inr v')
      with True d "1.IH" [OF True Inr] show ?thesis
        by (simp add: addWheels.simps [of aw ws i v])
    qed
  next
    case False
    then show ?thesis by (simp add: addWheels.simps [of aw ws i v])
  qed
qed

lemma addAll_never_failing: "addAll (\<lambda>opts v. Inr v) os v = (v, None)"
  by (induction os) simp_all

lemma useEffect_identity:
  "vehicleRef (fst (useEffect (\<lambda>opts. opts) (\<lambda>opts v. Inr v) s)) = Some (vehicleOptions s)"
  by (simp add: useEffect_def addWheels_addAll addAll_never_failing)

section \<open>The brake lights\<close>

lemma separateLights_mounted: "separateLights (mounted w body c)"
  by (simp add: separateLights_def mounted_def brakeLightsMesh_def frontLightsMesh_def)

lemma setBraking_null:
  assumes "brakeLightsRef s = None"
  shows "setBraking braking reversing driving s = Inl TypeError"
  using assms by (simp add: setBraking_def)

lemma setBraking_Inr:
  assumes "setBraking braking reversing driving s = Inr s'"
  shows "\<exists>mesh c. brakeLightsRef s = Some mesh \<and>
     s' = s\<lparr> materials := (materials s)
            (material mesh := (materials s (material mesh))\<lparr> color := c \<rparr>) \<rparr>"
  using assms by (auto simp: setBraking_def split: option.splits)

lemma reachable_separateLights:
  assumes "reachable mk aw s"
  shows "separateLights s"
  using assms
proof (induction rule: reachable.induct)
  case (mount w body c)
  show ?case by (rule separateLights_mounted)
next
  case (render s c)
  then show ?case by (simp add: separateLights_def)
next
  case (effect s s' err)
  from useEffect_state [OF effect.hyps(2)] effect.IH show ?case
    by (auto simp: separateLights_def split: option.splits)
next
  case (braking s b r d s')
  from setBraking_Inr [OF braking.hyps(2)] braking.IH show ?case
    by (auto simp: separateLights_def split: option.splits)
qed

lemma reachable_chassis:
  assumes "reachable mk aw s"
  shows "chassisRigidBodyRef s \<noteq> None"
  using assms
proof (induction rule: reachable.induct)
  case (mount w body c)
  show ?case by (simp add: mounted_def)
next
  case (render s c)
  then show ?case by simp
next
  case (effect s s' err)
  from useEffect_state [OF effect.hyps(2)] effect.IH show ?case by auto
next
  case (braking s b r d s')
  from setBraking_Inr [OF braking.hyps(2)] braking.IH show ?case by auto
qed

text \<open>
  C7. While the component is mounted, every call \<^verbatim>\<open>setBraking(braking, reversing, driving)\<close>
  succeeds, and afterwards the colour of the brake-light material is the brake-on colour when
  \<open>braking\<close> holds, whatever the other two flags are; otherwise the reverse colour when
  \<open>reversing\<close> holds; otherwise the driving colour when \<open>driving\<close> holds; otherwise the
  off colour.
\<close>

theorem setBraking_color:
  assumes "reachable mk aw s"
  shows "\<exists>s'. setBraking braking reversing driving s = Inr s' \<and>
    (braking \<longrightarrow> brakeLightsColor s' = Some BRAKE_LIGHTS_ON_COLOR) \<and>
    (\<not> braking \<and> reversing \<longrightarrow> brakeLightsColor s' = Some REVERSE_ON_COLOR) \<and>
    (\<not> braking \<and> \<not> reversing \<and> driving \<longrightarrow> brakeLightsColor s' = Some DRIVING_ON_COLOR) \<and>
    (\<not> braking \<and> \<not> reversing \<and> \<not> driving \<longrightarrow>
       brakeLightsColor s' = Some BRAKE_LIGHTS_OFF_COLOR)"
proof -
  from reachable_separateLights [OF assms] obtain mesh where "brakeLightsRef s = Some mesh"
    by (auto simp: separateLights_def split: option.splits)
  then show ?thesis
    by (simp add: setBraking_def brakeLightsColor_def)
qed

text \<open>
  Braking while driving, right after mounting: the brake lights show the brake-on colour,
  (1.5, 0.075, 0.075).
\<close>

theorem setBraking_color_witness:
  "\<exists>s'. setBraking True False True (mounted 0 0 defaultWheelControls :: unit Vehicle) = Inr s' \<and>
     brakeLightsColor s' = Some (Color 1.5 0.075 0.075)"
proof -
  have r: "reachable (\<lambda>opts. ()) (\<lambda>opts v. Inr v) (mounted 0 0 defaultWheelControls)"
    by (rule reachable.mount)
  from setBraking_color [OF r, of True False True] show ?thesis
    by (simp add: colour_values)
qed

text \<open>
  C10. While the component is mounted, a call of \<^verbatim>\<open>setBraking\<close> with any three flags
  changes nothing but the colour of the brake-light mesh's material: the new state is the old
  one with that one field of that one material replaced. The material of the front lights,
  the wheels and their options, the ref of the chassis rigid body and the ref of the raycast
  vehicle are as before.
\<close>

theorem setBraking_frame:
  assumes "reachable mk aw s"
  shows "\<exists>s' mesh front c.
    setBraking braking reversing driving s = Inr s' \<and>
    brakeLightsRef s = Some mesh \<and> frontLightsRef s = Some front \<and>
    s' = s\<lparr> materials := (materials s)
           (material mesh := (materials s (material mesh))\<lparr> color := c \<rparr>) \<rparr> \<and>
    materials s' (material front) = materials s (material front) \<and>
    frontLightsRef s' = frontLightsRef s \<and>
    wheels (controls s') = wheels (controls s) \<and>
    chassisRigidBodyRef s' = chassisRigidBodyRef s \<and>
    vehicleRef s' = vehicleRef s"
proof -
  from reachable_separateLights [OF assms] obtain mesh front where
    "brakeLightsRef s = Some mesh" and "frontLightsRef s = Some front"
    and "material mesh \<noteq> material front"
    by (auto simp: separateLights_def split: option.splits)
  then show ?thesis
    by (auto simp: setBraking_def)
qed

text \<open>
  Reversing, right after mounting with the body 7: the front-light material still is the
  white, emissive standard material; the brake lights show the reverse colour.
\<close>

theorem setBraking_frame_witness:
  "\<exists>s'. setBraking False True False (mounted 0 7 defaultWheelControls :: unit Vehicle) = Inr s' \<and>
     materials s' (material frontLightsMesh) =
       \<lparr> kind = MeshStandardMaterial, color = Color 1 1 1, emissive = Some (Color 1 1 1, 2) \<rparr> \<and>
     color (materials s' (material brakeLightsMesh)) = Color 0.3 0.3 0.3 \<and>
     wheels (controls s') = wheels defaultWheelControls \<and>
     chassisRigidBodyRef s' = Some 7 \<and> vehicleRef s' = None"
proof -
  have r: "reachable (\<lambda>opts. ()) (\<lambda>opts v. Inr v) (mounted 0 7 defaultWheelControls)"
    by (rule reachable.mount)
  from setBraking_frame [OF r, of False True False] show ?thesis
    by (auto simp: setBraking_def mounted_def mountedMaterials_def frontLightsMesh_def
        brakeLightsMesh_def colour_values)
qed

section \<open>The axis indices\<close>

lemma vehicleOptions_indices:
  "RapierRaycastVehicleOptions.indexRightAxis (vehicleOptions s)
     = wheelControls.indexRightAxis (controls s)"
  "RapierRaycastVehicleOptions.indexForwardAxis (vehicleOptions s)
     = wheelControls.indexForwardAxis (controls s)"
  "RapierRaycastVehicleOptions.indexUpAxis (vehicleOptions s)
     = wheelControls.indexUpAxis (controls s)"
  by (simp_all add: vehicleOptions_def)

lemma default_indices:
  "wheelControls.indexRightAxis defaultWheelControls = 2"
  "wheelControls.indexForwardAxis defaultWheelControls = 0"
  "wheelControls.indexUpAxis defaultWheelControls = 1"
  by (simp_all add: defaultWheelControls_def)

text \<open>
  The invariant of the axis indices does not hold for every vehicle the component
  constructs. After the right-axis control of the panel is set to 0, the component is
  rendered with it, and the effect then hands the indices 0, 0, 1 to the constructor: the
  right axis and the forward axis coincide.
\<close>

theorem axis_indices_counterexample:
  "reachable (\<lambda>opts. opts) (\<lambda>opts v. Inr v)
     ((mounted 0 0 defaultWheelControls)
        \<lparr> controls := defaultWheelControls \<lparr> wheelControls.indexRightAxis := 0 \<rparr> \<rparr>) \<and>
   vehicleRef (fst (useEffect (\<lambda>opts. opts) (\<lambda>opts v. Inr v)
     ((mounted 0 0 defaultWheelControls)
        \<lparr> controls := defaultWheelControls \<lparr> wheelControls.indexRightAxis := 0 \<rparr> \<rparr>)))
     = Some \<lparr> world = 0, chassisRigidBody = Some 0,
              indexRightAxis = 0, indexForwardAxis = 0, indexUpAxis = 1 \<rparr> \<and>
   \<not> axisIndicesValid
       \<lparr> world = 0, chassisRigidBody = Some 0,
         indexRightAxis = 0, indexForwardAxis = 0, indexUpAxis = 1 \<rparr>"
proof (intro conjI)
  show "reachable (\<lambda>opts. opts) (\<lambda>opts v. Inr v)
     ((mounted 0 0 defaultWheelControls)
        \<lparr> controls := defaultWheelControls \<lparr> wheelControls.indexRightAxis := 0 \<rparr> \<rparr>)"
    by (rule reachable.render) (rule reachable.mount)
  show "vehicleRef (fst (useEffect (\<lambda>opts. opts) (\<lambda>opts v. Inr v)
     ((mounted 0 0 defaultWheelControls)
        \<lparr> controls := defaultWheelControls \<lparr> wheelControls.indexRightAxis := 0 \<rparr> \<rparr>)))
     = Some \<lparr> world = 0, chassisRigidBody = Some 0,
              indexRightAxis = 0, indexForwardAxis = 0, indexUpAxis = 1 \<rparr>"
    unfolding useEffect_identity
    by (simp add: vehicleOptions_def mounted_def default_indices)
  show "\<not> axisIndicesValid
       \<lparr> world = 0, chassisRigidBody = Some 0,
         indexRightAxis = 0, indexForwardAxis = 0, indexUpAxis = 1 \<rparr>"
    by (simp add: axisIndicesValid_def)
qed

text \<open>
  C5, amended. For every vehicle the component constructs, the right-, forward- and up-axis
  indices handed to the constructor of \<^verbatim>\<open>RapierRaycastVehicle\<close> are the current values
  of the panel's controls, unchanged; this is what the constructor receives at the moment
  the vehicle is created. With the initial values of the controls, 2, 0 and 1, each index
  is one of 0, 1, 2 and no two are equal.
\<close>

theorem axis_indices_from_controls:
  "RapierRaycastVehicleOptions.indexRightAxis (vehicleOptions s)
     = wheelControls.indexRightAxis (controls s) \<and>
   RapierRaycastVehicleOptions.indexForwardAxis (vehicleOptions s)
     = wheelControls.indexForwardAxis (controls s) \<and>
   RapierRaycastVehicleOptions.indexUpAxis (vehicleOptions s)
     = wheelControls.indexUpAxis (controls s) \<and>
   vehicleRef (fst (useEffect (\<lambda>opts. opts) (\<lambda>opts v. Inr v) s)) = Some (vehicleOptions s) \<and>
   axisIndicesValid (vehicleOptions (s\<lparr> controls := defaultWheelControls \<rparr>)) \<and>
   axisIndicesValid (vehicleOptions (mounted w body defaultWheelControls))"
  by (simp add: axisIndicesValid_def vehicleOptions_indices default_indices mounted_def
      useEffect_identity)

section \<open>The wheels\<close>










section \<open>Registering a wheel\<close>

lemma default_options_0:
  "radius (options (wheels defaultWheelControls ! 0)) = 0.5"
  "suspensionStiffness (options (wheels defaultWheelControls ! 0)) = 30"
  "suspensionRestLength (options (wheels defaultWheelControls ! 0)) = 0.3"
  "maxSuspensionForce (options (wheels defaultWheelControls ! 0)) = 100000"
  "maxSuspensionTravel (options (wheels defaultWheelControls ! 0)) = 0.3"
  "dampingRelaxation (options (wheels defaultWheelControls ! 0)) = 2.3"
  "dampingCompression (options (wheels defaultWheelControls ! 0)) = 4.4"
  "directionLocal (options (wheels defaultWheelControls ! 0)) = Vector3 0 (- 1) 0"
  "axleLocal (options (wheels defaultWheelControls ! 0)) = Vector3 0 0 1"
  by (simp_all add: wheels_def wheelOptionsAt_def commonWheelOptions_def defaultWheelControls_def
      commonWheelOptions.defs levaWheelOptions.defs WheelOptions.defs)

lemma default_wheelOptionsAt:
  "radius (wheelOptionsAt defaultWheelControls q) = 0.5"
  "suspensionStiffness (wheelOptionsAt defaultWheelControls q) = 30"
  "suspensionRestLength (wheelOptionsAt defaultWheelControls q) = 0.3"
  "maxSuspensionForce (wheelOptionsAt defaultWheelControls q) = 100000"
  "maxSuspensionTravel (wheelOptionsAt defaultWheelControls q) = 0.3"
  "dampingRelaxation (wheelOptionsAt defaultWheelControls q) = 2.3"
  "dampingCompression (wheelOptionsAt defaultWheelControls q) = 4.4"
  "directionLocal (wheelOptionsAt defaultWheelControls q) = Vector3 0 (- 1) 0"
  "axleLocal (wheelOptionsAt defaultWheelControls q) = Vector3 0 0 1"
  by (simp_all add: wheelOptionsAt_def commonWheelOptions_def defaultWheelControls_def
      commonWheelOptions.defs levaWheelOptions.defs WheelOptions.defs)

lemma default_wheelOptionsAt_valid: "validWheelOptions (wheelOptionsAt defaultWheelControls q)"
  by (simp add: validWheelOptions_def default_wheelOptionsAt)

lemma addWheel_invalid:
  assumes "\<not> validWheelOptions opts"
  shows "addWheel opts v = Inl InvalidConfiguration"
  using assms by (simp add: addWheel_def)

lemma addWheel_valid:
  assumes "validWheelOptions opts"
  shows "addWheel opts v =
    Inr (length (wheelList v), v\<lparr> wheelList := wheelList v @ [newWheel opts] \<rparr>)"
  using assms by (simp add: addWheel_def)

lemma config_newWheel: "config (newWheel opts) = opts"
  by (simp add: newWheel_def)

lemma addWheel_call_valid:
  assumes "validWheelOptions opts"
  shows "addWheel_call opts v = Inr (v\<lparr> wheelList := wheelList v @ [newWheel opts] \<rparr>)"
  using assms by (simp add: addWheel_call_def addWheel_def)

lemma addAll_valid:
  assumes "list_all validWheelOptions os"
  shows "addAll addWheel_call os v = (v\<lparr> wheelList := wheelList v @ map newWheel os \<rparr>, None)"
  using assms by (induction os arbitrary: v) (simp_all add: addWheel_call_valid)

lemma default_wheels_valid: "list_all validWheelOptions (map options (wheels defaultWheelControls))"
  by (simp add: wheels_def default_wheelOptionsAt_valid)

text \<open>
  With the initial controls the four calls of the effect pass the check: the effect ends
  without an error and the vehicle holds the four wheels of the component, in their order.
\<close>

lemma useEffect_initial:
  "snd (useEffect new_RapierRaycastVehicle addWheel_call (mounted w body defaultWheelControls))
     = None \<and>
   map_option (\<lambda>v. map config (wheelList v))
     (vehicleRef (fst (useEffect new_RapierRaycastVehicle addWheel_call
        (mounted w body defaultWheelControls))))
     = Some (map options (wheels defaultWheelControls))"
proof -
  have c: "controls (mounted w body defaultWheelControls :: RapierRaycastVehicle Vehicle)
      = defaultWheelControls"
    by (simp add: mounted_def)
  have e: "wheelList (new_RapierRaycastVehicle opts) = []" for opts
    by (simp add: new_RapierRaycastVehicle_def RapierRaycastVehicleOptions.defs
        RapierRaycastVehicle.defs)
  show ?thesis
    unfolding useEffect_def c addWheels_addAll drop_0 addAll_valid [OF default_wheels_valid]
    by (simp add: e config_newWheel comp_def)
qed

text \<open>
  C3. A call of \<^verbatim>\<open>addWheel\<close> fails with \<open>InvalidConfiguration\<close> when the suspension
  direction or the axle direction is not a unit vector, when the two are not perpendicular,
  or when the radius or the stiffness is negative. Otherwise it returns the index of the new
  wheel as its handle: the wheel list grows by this one wheel, whose configuration is
  exactly the one given (nothing is clamped); the wheels registered before keep their
  indices, and the options of the vehicle are as before.
\<close>

theorem addWheel_validates:
  "((dot (directionLocal opts) (directionLocal opts) \<noteq> 1 \<or>
     dot (axleLocal opts) (axleLocal opts) \<noteq> 1 \<or>
     dot (directionLocal opts) (axleLocal opts) \<noteq> 0 \<or>
     radius opts < 0 \<or> suspensionStiffness opts < 0)
      \<longrightarrow> addWheel opts v = Inl InvalidConfiguration) \<and>
   (dot (directionLocal opts) (directionLocal opts) = 1 \<and>
    dot (axleLocal opts) (axleLocal opts) = 1 \<and>
    dot (directionLocal opts) (axleLocal opts) = 0 \<and>
    0 \<le> radius opts \<and> 0 \<le> suspensionStiffness opts
      \<longrightarrow> (\<exists>h v'. addWheel opts v = Inr (h, v') \<and>
            h = length (wheelList v) \<and>
            length (wheelList v') = Suc (length (wheelList v)) \<and>
            config (wheelList v' ! h) = opts \<and>
            (\<forall>i < length (wheelList v). wheelList v' ! i = wheelList v ! i) \<and>
            RapierRaycastVehicleOptions.truncate v' = RapierRaycastVehicleOptions.truncate v))"
proof (intro conjI impI)
  assume "dot (directionLocal opts) (directionLocal opts) \<noteq> 1 \<or>
     dot (axleLocal opts) (axleLocal opts) \<noteq> 1 \<or>
     dot (directionLocal opts) (axleLocal opts) \<noteq> 0 \<or>
     radius opts < 0 \<or> suspensionStiffness opts < 0"
  then have "\<not> validWheelOptions opts"
    by (auto simp: validWheelOptions_def)
  then show "addWheel opts v = Inl InvalidConfiguration"
    by (rule addWheel_invalid)
next
  assume "dot (directionLocal opts) (directionLocal opts) = 1 \<and>
    dot (axleLocal opts) (axleLocal opts) = 1 \<and>
    dot (directionLocal opts) (axleLocal opts) = 0 \<and>
    0 \<le> radius opts \<and> 0 \<le> suspensionStiffness opts"
  then have "validWheelOptions opts"
    by (simp add: validWheelOptions_def)
  from addWheel_valid [OF this, of v]
  show "\<exists>h v'. addWheel opts v = Inr (h, v') \<and>
            h = length (wheelList v) \<and>
            length (wheelList v') = Suc (length (wheelList v)) \<and>
            config (wheelList v' ! h) = opts \<and>
            (\<forall>i < length (wheelList v). wheelList v' ! i = wheelList v ! i) \<and>
            RapierRaycastVehicleOptions.truncate v' = RapierRaycastVehicleOptions.truncate v"
    by (simp add: config_newWheel nth_append RapierRaycastVehicleOptions.defs)
qed

text \<open>
  The options of the component's first wheel are accepted on the fresh vehicle, with the
  handle 0; the same options with a suspension direction of length 2 are rejected.
\<close>

theorem addWheel_validates_witness:
  "addWheel (options (wheels defaultWheelControls ! 0)) initialVehicle
     = Inr (0, initialVehicle
                 \<lparr> wheelList := [newWheel (options (wheels defaultWheelControls ! 0))] \<rparr>) \<and>
   addWheel ((options (wheels defaultWheelControls ! 0)) \<lparr> directionLocal := Vector3 0 (- 2) 0 \<rparr>)
       initialVehicle
     = Inl InvalidConfiguration"
proof -
  let ?good = "options (wheels defaultWheelControls ! 0)"
  have empty: "wheelList initialVehicle = []"
    by (simp add: initialVehicle_def new_RapierRaycastVehicle_def
        RapierRaycastVehicleOptions.defs RapierRaycastVehicle.defs)
  from addWheel_validates [of ?good initialVehicle]
  have "\<exists>h v'. addWheel ?good initialVehicle = Inr (h, v')"
    by (auto simp: default_options_0)
  then have good:
    "addWheel ?good initialVehicle = Inr (0, initialVehicle\<lparr> wheelList := [newWheel ?good] \<rparr>)"
    by (auto simp: addWheel_def empty split: if_splits)
  from addWheel_validates [of "?good\<lparr> directionLocal := Vector3 0 (- 2) 0 \<rparr>" initialVehicle]
  have bad: "addWheel (?good\<lparr> directionLocal := Vector3 0 (- 2) 0 \<rparr>) initialVehicle
      = Inl InvalidConfiguration"
    by simp
  from good bad show ?thesis by simp
qed

section \<open>The suspension\<close>

lemma clamp_range: "0 \<le> clamp v 0 hi" "0 \<le> hi \<Longrightarrow> clamp v 0 hi \<le> hi"
  by (simp_all add: clamp_def)

lemma updateSuspension_config: "config (updateSuspension k deltaTime hit w) = config w"
  by (cases hit) (simp_all add: updateSuspension_def Let_def)

lemma updateSuspension_Some_length:
  "suspensionLength (updateSuspension k deltaTime (Some h) w) =
     clamp (hitDistance h - radius (config w)) 0
       (suspensionRestLength (config w) + maxSuspensionTravel (config w))"
  by (simp add: updateSuspension_def Let_def)

lemma updateSuspension_Some_force:
  "suspensionForce (updateSuspension k deltaTime (Some h) w) =
     totalSuspensionForce (config w) (lastSuspensionLength w)
       (suspensionLength (updateSuspension k deltaTime (Some h) w)) deltaTime"
  by (simp add: updateSuspension_def Let_def)

lemma updateSuspension_None:
  "inContact (updateSuspension k deltaTime None w) = False"
  "suspensionLength (updateSuspension k deltaTime None w) =
     suspensionRestLength (config w) + maxSuspensionTravel (config w)"
  "suspensionForce (updateSuspension k deltaTime None w) = 0"
  "angularVelocity (updateSuspension k deltaTime None w) = k * angularVelocity w"
  "rotation (updateSuspension k deltaTime None w) = rotation w + k * angularVelocity w * deltaTime"
  by (simp_all add: updateSuspension_def Let_def)

lemma suspensionForce_range:
  "0 \<le> suspensionForce (updateSuspension k deltaTime hit w)"
  "0 \<le> maxSuspensionForce (config w) \<Longrightarrow>
     suspensionForce (updateSuspension k deltaTime hit w) \<le> maxSuspensionForce (config w)"
  by (cases hit; simp add: updateSuspension_None updateSuspension_Some_force
      totalSuspensionForce_def clamp_range)+

lemma restingWheel_simps:
  "config restingWheel = options (wheels defaultWheelControls ! 0)"
  "lastSuspensionLength restingWheel = 0.3"
  "angularVelocity restingWheel = 0"
  by (simp_all add: restingWheel_def newWheel_def default_options_0)

lemma damperForce_at_rest: "damperForce opts len len deltaTime = 0"
  by (simp add: damperForce_def)

lemma scenario_length:
  "suspensionLength (updateSuspension k deltaTime
      (Some \<lparr> hitDistance = 0.3 + 0.5, hitPoint = p, hitNormal = n \<rparr>) restingWheel) = 0.3"
  by (simp add: updateSuspension_Some_length restingWheel_simps default_options_0 clamp_def)

lemma scenario_spring:
  "springForce (options (wheels defaultWheelControls ! 0)) 0.3 = 0"
  by (simp add: springForce_def default_options_0 clamp_def)

lemma scenario_total:
  "suspensionForce (updateSuspension k deltaTime
      (Some \<lparr> hitDistance = 0.3 + 0.5, hitPoint = p, hitNormal = n \<rparr>) restingWheel) = 0"
  unfolding updateSuspension_Some_force scenario_length restingWheel_simps totalSuspensionForce_def
    scenario_spring damperForce_at_rest
  by (simp add: clamp_def default_options_0)

text \<open>
  C1. For a wheel whose maximal suspension force is not negative and a positive time step:
  the spring force is stiffness times (rest length minus suspension length), raised to 0
  where it is negative and cut at the maximal suspension force, and the total suspension
  force of the wheel after its step lies between 0 and the maximal suspension force, whether
  the ray hit or not. For the wheel of the initial configuration (rest length 0.3,
  stiffness 30, radius 0.5) whose last suspension length is 0.3, a hit at distance
  0.3 + 0.5 gives the suspension length 0.3, the spring force 0 and the total force 0.
\<close>

theorem suspension_force_clamped:
  assumes "0 \<le> maxSuspensionForce (config w)" and "0 < deltaTime"
  shows "springForce (config w) len =
       max 0 (min (maxSuspensionForce (config w))
         (suspensionStiffness (config w) * (suspensionRestLength (config w) - len))) \<and>
     0 \<le> springForce (config w) len \<and> springForce (config w) len \<le> maxSuspensionForce (config w) \<and>
     0 \<le> suspensionForce (updateSuspension k deltaTime hit w) \<and>
     suspensionForce (updateSuspension k deltaTime hit w) \<le> maxSuspensionForce (config w) \<and>
     suspensionLength (updateSuspension k deltaTime
        (Some \<lparr> hitDistance = 0.3 + 0.5, hitPoint = p, hitNormal = n \<rparr>) restingWheel) = 0.3 \<and>
     springForce (config restingWheel) 0.3 = 0 \<and>
     suspensionForce (updateSuspension k deltaTime
        (Some \<lparr> hitDistance = 0.3 + 0.5, hitPoint = p, hitNormal = n \<rparr>) restingWheel) = 0"
proof -
  have "springForce (config w) len =
       max 0 (min (maxSuspensionForce (config w))
         (suspensionStiffness (config w) * (suspensionRestLength (config w) - len)))"
    by (simp add: springForce_def clamp_def)
  moreover have "0 \<le> springForce (config w) len"
    by (simp add: springForce_def clamp_range)
  moreover have "springForce (config w) len \<le> maxSuspensionForce (config w)"
    using assms(1) by (simp add: springForce_def clamp_range)
  moreover note suspensionForce_range(1) [of k deltaTime hit w]
    suspensionForce_range(2) [OF assms(1), of k deltaTime hit]
    scenario_length [of k deltaTime p n] scenario_total [of k deltaTime p n]
  moreover have "springForce (config restingWheel) 0.3 = 0"
    by (simp add: restingWheel_simps scenario_spring)
  ultimately show ?thesis by blast
qed

text \<open>
  The same wheel with a hit at distance 0.6 and a step of 1/60: the suspension is
  compressed to 0.1, the spring pushes with 6, the damper with 52.8, and the total 58.8
  lies below the maximal force 100000.
\<close>

theorem suspension_force_clamped_witness:
  "0 \<le> maxSuspensionForce (config restingWheel) \<and> (0 :: real) < 1 / 60 \<and>
   springForce (config restingWheel) 0.1 = 6 \<and>
   suspensionForce (updateSuspension 0.99 (1 / 60)
     (Some \<lparr> hitDistance = 0.6, hitPoint = Vector3 0 0 0, hitNormal = Vector3 0 1 0 \<rparr>)
     restingWheel) = 58.8 \<and>
   suspensionForce (updateSuspension 0.99 (1 / 60)
     (Some \<lparr> hitDistance = 0.6, hitPoint = Vector3 0 0 0, hitNormal = Vector3 0 1 0 \<rparr>)
     restingWheel) \<le> 100000"
proof -
  have m: "0 \<le> maxSuspensionForce (config restingWheel)"
    by (simp add: restingWheel_simps default_options_0)
  have len: "suspensionLength (updateSuspension 0.99 (1 / 60)
     (Some \<lparr> hitDistance = 0.6, hitPoint = Vector3 0 0 0, hitNormal = Vector3 0 1 0 \<rparr>)
     restingWheel) = 0.1"
    by (simp add: updateSuspension_Some_length restingWheel_simps default_options_0 clamp_def)
  have spring: "springForce (config restingWheel) 0.1 = 6"
    by (simp add: springForce_def restingWheel_simps default_options_0 clamp_def)
  have damper: "damperForce (config restingWheel) 0.3 0.1 (1 / 60) = 52.8"
    by (simp add: damperForce_def restingWheel_simps default_options_0)
  have total: "suspensionForce (updateSuspension 0.99 (1 / 60)
     (Some \<lparr> hitDistance = 0.6, hitPoint = Vector3 0 0 0, hitNormal = Vector3 0 1 0 \<rparr>)
     restingWheel) = 58.8"
    unfolding updateSuspension_Some_force len totalSuspensionForce_def restingWheel_simps(2)
      spring damper
    by (simp add: clamp_def restingWheel_simps default_options_0)
  from suspension_force_clamped [OF m, of "1 / 60" "0.1" "0.99"
      "Some \<lparr> hitDistance = 0.6, hitPoint = Vector3 0 0 0, hitNormal = Vector3 0 1 0 \<rparr>"]
    m spring total
  show ?thesis by simp
qed

section \<open>A wheel off the ground\<close>

lemma add_zero: "add (Vector3 0 0 0) u = u" "add u (Vector3 0 0 0) = u"
  by (cases u; simp)+

lemma add_assoc: "add (add u v) w = add u (add v w)"
  by (cases u; cases v; cases w; simp)

lemma chassisForce_append:
  "chassisForce friction (ws1 @ ws2) = add (chassisForce friction ws1) (chassisForce friction ws2)"
  by (induction ws1) (simp_all add: chassisForce_def add_zero add_assoc)

lemma chassisForce_Cons:
  "chassisForce friction (w # ws) = add (wheelForce friction w) (chassisForce friction ws)"
  by (simp add: chassisForce_def)

lemma wheelForce_no_hit: "wheelForce friction (updateSuspension k deltaTime None w) = Vector3 0 0 0"
  by (simp add: wheelForce_def updateSuspension_None)

lemma chassisForce_all_off:
  "chassisForce friction (map (updateSuspension k deltaTime None) ws) = Vector3 0 0 0"
  by (induction ws) (simp_all add: chassisForce_Cons wheelForce_no_hit add_zero, simp add: chassisForce_def)

text \<open>
  C2. When the raycast of a wheel returns no hit, the wheel is marked as not in contact, its
  suspension length is rest length plus maximal travel, its suspension force is 0, and it
  adds nothing to the force on the chassis: the sum over the wheels is the same with and
  without it. The wheel keeps spinning: its angular velocity is the one before times the
  decay factor, which does not grow it when the factor lies between 0 and 1, and its
  rotation advances by that velocity times the time step.
\<close>

theorem no_hit_wheel:
  "\<not> inContact (updateSuspension k deltaTime None w) \<and>
   suspensionLength (updateSuspension k deltaTime None w) =
     suspensionRestLength (config w) + maxSuspensionTravel (config w) \<and>
   suspensionForce (updateSuspension k deltaTime None w) = 0 \<and>
   wheelForce friction (updateSuspension k deltaTime None w) = Vector3 0 0 0 \<and>
   chassisForce friction (ws1 @ updateSuspension k deltaTime None w # ws2) =
     chassisForce friction (ws1 @ ws2) \<and>
   angularVelocity (updateSuspension k deltaTime None w) = k * angularVelocity w \<and>
   rotation (updateSuspension k deltaTime None w) =
     rotation w + angularVelocity (updateSuspension k deltaTime None w) * deltaTime \<and>
   (0 \<le> k \<and> k \<le> 1 \<longrightarrow>
      \<bar>angularVelocity (updateSuspension k deltaTime None w)\<bar> \<le> \<bar>angularVelocity w\<bar>)"
proof -
  have force: "chassisForce friction (ws1 @ updateSuspension k deltaTime None w # ws2) =
     chassisForce friction (ws1 @ ws2)"
    by (simp add: chassisForce_append chassisForce_Cons wheelForce_no_hit add_zero)
  have decay: "0 \<le> k \<and> k \<le> 1 \<longrightarrow>
      \<bar>angularVelocity (updateSuspension k deltaTime None w)\<bar> \<le> \<bar>angularVelocity w\<bar>"
  proof
    assume k: "0 \<le> k \<and> k \<le> 1"
    then have "\<bar>k * angularVelocity w\<bar> = k * \<bar>angularVelocity w\<bar>"
      by (simp add: abs_mult)
    also from k have "\<dots> \<le> 1 * \<bar>angularVelocity w\<bar>"
      by (intro mult_right_mono) simp_all
    finally show "\<bar>angularVelocity (updateSuspension k deltaTime None w)\<bar> \<le> \<bar>angularVelocity w\<bar>"
      by (simp add: updateSuspension_None)
  qed
  from force decay show ?thesis
    by (simp add: updateSuspension_None wheelForce_no_hit)
qed

text \<open>
  A wheel of the initial configuration spinning at 10 with the decay factor 0.99: after a
  step without a hit it spins at 9.9, is extended to 0.6 and adds no force.
\<close>

theorem no_hit_wheel_witness:
  "(0 :: real) \<le> 0.99 \<and> (0.99 :: real) \<le> 1 \<and>
   angularVelocity (updateSuspension 0.99 (1 / 60) None (restingWheel\<lparr> angularVelocity := 10 \<rparr>)) = 9.9 \<and>
   \<bar>angularVelocity (updateSuspension 0.99 (1 / 60) None (restingWheel\<lparr> angularVelocity := 10 \<rparr>))\<bar>
     \<le> 10 \<and>
   suspensionLength (updateSuspension 0.99 (1 / 60) None (restingWheel\<lparr> angularVelocity := 10 \<rparr>)) = 0.6 \<and>
   wheelForce (\<lambda>w. Vector3 1 2 3)
     (updateSuspension 0.99 (1 / 60) None (restingWheel\<lparr> angularVelocity := 10 \<rparr>)) = Vector3 0 0 0"
  using no_hit_wheel [of "0.99" "1 / 60" "restingWheel\<lparr> angularVelocity := 10 \<rparr>"
      "\<lambda>w. Vector3 1 2 3" "[]" "[]"]
  by (simp add: restingWheel_simps default_options_0)

end
